theory Spec2Isabelle
  imports Complex_Main "HOL-Library.Multiset"
begin

section \<open>The chat agent of src/agent.ts\<close>

text \<open>
  The class \<open>ChatAgent\<close> keeps an array \<open>this.messages\<close> in memory and a table
  \<open>messages\<close> in the SQL storage of its durable object. Every method is modelled by a
  function that takes the agent and returns the agent it leaves behind, together with the
  value it resolves to or the exception it rejects with (\<open>Inl\<close>). What the platform
  decides (whether an SQL statement throws, in which order it returns rows of equal
  timestamp, what it stores for a value that is not a string, what \<open>Date.now()\<close>
  reads, what the model answers) is the record \<open>platform\<close>, one per request.
\<close>

subsection \<open>Data\<close>

text \<open>A thrown value: an \<open>Error\<close> with its message, or anything else.\<close>

datatype exn = JsError string | JsThrown

datatype role = User | Assistant | System

text \<open>
  The values the field \<open>message\<close> of a parsed body can have. Line 85 casts without
  checking, and nothing later inspects the value, so all of them reach the array, the
  model and the \<open>INSERT\<close>. \<open>JsUndefined\<close>: the field is absent. \<open>JsString s\<close>:
  a string that the storage keeps and returns as it is. \<open>JsOther k\<close>: any other value
  (a number, a boolean, \<open>null\<close>, an array, an object, or a string the storage cannot
  keep as it is, such as one with a lone surrogate); \<open>k\<close> tells such values apart.
\<close>

datatype js_value = JsUndefined | JsString string | JsOther nat

text \<open>
  \<open>interface Message\<close>. The field \<open>content\<close> is declared a string; in the user message
  it is whatever the body held.
\<close>

record message =
  role :: role
  content :: js_value
  timestamp :: int

text \<open>
  A row of the table created by \<open>initializeDatabase\<close>:
  \<open>id INTEGER PRIMARY KEY AUTOINCREMENT, role TEXT NOT NULL, content TEXT NOT NULL,
  timestamp INTEGER NOT NULL\<close>. The rows are kept in insertion order; \<open>sequence\<close> is
  the largest id handed out so far, which \<open>AUTOINCREMENT\<close> never reuses; \<open>created\<close>
  tells whether the table exists.
\<close>

record row =
  r_id :: nat
  r_role :: role
  r_content :: string
  r_timestamp :: int

record storage =
  created :: bool
  rows :: "row list"
  sequence :: nat

text \<open>The class: \<open>this.messages\<close> and \<open>this.state.storage\<close>.\<close>

record agent =
  messages :: "message list"
  db :: storage

text \<open>An element of the \<open>messages\<close> array handed to the model: role and content only.\<close>

record chat_turn =
  t_role :: role
  t_content :: js_value

record ai_request =
  model :: string
  turns :: "chat_turn list"
  max_tokens :: nat
  temperature :: real

text \<open>
  What \<open>this.env.AI.run\<close> does: it resolves to a string, or to an object whose field
  \<open>response\<close> is a string or absent, or it throws.
\<close>

datatype ai_outcome = AiString string | AiObject "string option" | AiThrows exn

text \<open>
  The platform during one request: for each \<open>sql.exec\<close> of the request whether the
  storage makes it throw; the rank the storage gives a row among rows of equal timestamp
  (\<open>ORDER BY timestamp\<close> promises no order among them); what binding a value that is
  not a string to the \<open>TEXT\<close> column does, throw or store a text of the storage's
  making; the two readings of \<open>Date.now()\<close> in \<open>handleChat\<close>; and the completion
  capability.
\<close>

record platform =
  create_fault :: "exn option"
  select_fault :: "exn option"
  insert_user_fault :: "exn option"
  insert_assistant_fault :: "exn option"
  delete_fault :: "exn option"
  tie_rank :: "row \<Rightarrow> nat"
  bind_other :: "nat \<Rightarrow> exn + string"
  now_user :: int
  now_assistant :: int
  AI_run :: "ai_request \<Rightarrow> ai_outcome"

text \<open>
  What \<open>await request.json()\<close> followed by \<open>const { message } = ...\<close> gives:
  an exception (the body is missing or is not JSON, or it is \<open>null\<close> and cannot be
  destructured), or the value of the field \<open>message\<close>, \<open>JsUndefined\<close> when the
  parsed value has no such field.
\<close>

datatype json_body = JsonThrows exn | JsonMessage js_value

record request =
  http_method :: string
  pathname :: string
  json :: json_body

text \<open>The argument of \<open>JSON.stringify\<close> in each handler, or a plain body.\<close>

datatype payload =
    NoBody
  | PlainText string
  | ChatSuccess message message nat
  | ChatFailure string
  | HistorySuccess "message list" nat
  | ClearSuccess

record response =
  status :: nat
  headers :: "(string \<times> string) list"
  body :: payload

subsection \<open>Constants of the source\<close>

definition corsHeaders :: "(string \<times> string) list" where
  "corsHeaders =
     [(''Access-Control-Allow-Origin'', ''*''),
      (''Access-Control-Allow-Methods'', ''GET, POST, OPTIONS''),
      (''Access-Control-Allow-Headers'', ''Content-Type'')]"

definition system_instruction :: string where
  "system_instruction = ''You are a helpful AI assistant embedded in a blog. Help users with questions about the blog content, technology, or general topics. Be friendly and concise.''"

definition model_name :: string where
  "model_name = ''@cf/meta/llama-3.3-70b-instruct-fp8-fast''"

text \<open>The string after \<open>||\<close> on line 167.\<close>

definition no_response_text :: string where
  "no_response_text = ''I apologize, but I couldn't generate a response.''"

text \<open>The string returned by the \<open>catch\<close> on line 170.\<close>

definition ai_error_text :: string where
  "ai_error_text = ''I'm having trouble connecting to the AI service. Please try again.''"

text \<open>
  The message of the error the storage raises when \<open>NULL\<close> is bound to a
  \<open>NOT NULL\<close> column. Its wording is the platform's; only that an \<open>Error\<close> is
  thrown matters below.
\<close>

definition not_null_violation :: exn where
  "not_null_violation = JsError ''NOT NULL constraint failed: messages.content''"

definition no_such_table :: exn where
  "no_such_table = JsError ''no such table: messages''"

subsection \<open>The SQL statements\<close>

text \<open>
  Each function is one \<open>sql.exec\<close>; its first argument is the fault the platform injects
  into that call. A statement that throws leaves the storage as it was.
\<close>

definition sql_create_table :: "exn option \<Rightarrow> storage \<Rightarrow> exn + storage" where
  "sql_create_table fault st =
     (case fault of
        Some e \<Rightarrow> Inl e
      | None \<Rightarrow> Inr (st\<lparr>created := True\<rparr>))"

text \<open>
  \<open>ORDER BY timestamp ASC\<close>: the rows sorted by timestamp, rows of equal timestamp by
  the rank the storage gives them, and in insertion order only where that is equal too.
  Rows differ in their ids, so every order among equal timestamps is that of some rank.
\<close>

definition select_rows :: "(row \<Rightarrow> nat) \<Rightarrow> row list \<Rightarrow> row list" where
  "select_rows rank rs = sort_key r_timestamp (sort_key rank rs)"

text \<open>\<open>SELECT role, content, timestamp FROM messages ORDER BY timestamp ASC\<close>.\<close>

definition sql_select_all :: "exn option \<Rightarrow> (row \<Rightarrow> nat) \<Rightarrow> storage \<Rightarrow> exn + row list" where
  "sql_select_all fault rank st =
     (case fault of
        Some e \<Rightarrow> Inl e
      | None \<Rightarrow>
          if \<not> created st then Inl no_such_table
          else Inr (select_rows rank (rows st)))"

text \<open>
  \<open>INSERT INTO messages (role, content, timestamp) VALUES (?, ?, ?)\<close>. An
  \<open>undefined\<close> content is bound as \<open>NULL\<close>, which the column refuses; a string is
  stored; for any other value the storage throws or stores a text of its making.
\<close>

definition sql_insert :: "exn option \<Rightarrow> (nat \<Rightarrow> exn + string) \<Rightarrow> role \<Rightarrow> js_value \<Rightarrow> int \<Rightarrow> storage \<Rightarrow> exn + storage" where
  "sql_insert fault bind r c t st =
     (case fault of
        Some e \<Rightarrow> Inl e
      | None \<Rightarrow>
          if \<not> created st then Inl no_such_table
          else (case (case c of
                        JsUndefined \<Rightarrow> Inl not_null_violation
                      | JsString s \<Rightarrow> Inr s
                      | JsOther k \<Rightarrow> bind k) of
                  Inl e \<Rightarrow> Inl e
                | Inr text \<Rightarrow>
                    Inr (st\<lparr>rows := rows st @
                                [\<lparr>r_id = Suc (sequence st), r_role = r,
                                  r_content = text, r_timestamp = t\<rparr>],
                            sequence := Suc (sequence st)\<rparr>)))"

definition sql_delete_all :: "exn option \<Rightarrow> storage \<Rightarrow> exn + storage" where
  "sql_delete_all fault st =
     (case fault of
        Some e \<Rightarrow> Inl e
      | None \<Rightarrow>
          if \<not> created st then Inl no_such_table
          else Inr (st\<lparr>rows := []\<rparr>))"

subsection \<open>The methods of the class\<close>

definition row_to_message :: "row \<Rightarrow> message" where
  "row_to_message rw =
     \<lparr>role = r_role rw, content = JsString (r_content rw), timestamp = r_timestamp rw\<rparr>"

definition initializeDatabase :: "platform \<Rightarrow> agent \<Rightarrow> (exn + unit) \<times> agent" where
  "initializeDatabase p a =
     (case sql_create_table (create_fault p) (db a) of
        Inl e \<Rightarrow> (Inl e, a)
      | Inr st \<Rightarrow>
          (case sql_select_all (select_fault p) (tie_rank p) st of
             Inl e \<Rightarrow> (Inl e, a\<lparr>db := st\<rparr>)
           | Inr results \<Rightarrow>
               (Inr (), a\<lparr>db := st, messages := map row_to_message results\<rparr>)))"

text \<open>\<open>saveMessage\<close> pushes onto the array first and runs the \<open>INSERT\<close> after.\<close>

definition saveMessage :: "exn option \<Rightarrow> (nat \<Rightarrow> exn + string) \<Rightarrow> message \<Rightarrow> agent \<Rightarrow> (exn + unit) \<times> agent" where
  "saveMessage fault bind m a =
     (let a1 = a\<lparr>messages := messages a @ [m]\<rparr> in
      case sql_insert fault bind (role m) (content m) (timestamp m) (db a1) of
        Inl e \<Rightarrow> (Inl e, a1)
      | Inr st \<Rightarrow> (Inr (), a1\<lparr>db := st\<rparr>))"

text \<open>\<open>xs.slice(-n)\<close>: the last \<open>n\<close> elements, all of them when there are fewer.\<close>

definition slice_last :: "nat \<Rightarrow> 'a list \<Rightarrow> 'a list" where
  "slice_last n xs = drop (length xs - n) xs"

text \<open>The array \<open>messages\<close> built on lines 140 to 154.\<close>

definition build_turns :: "message list \<Rightarrow> js_value \<Rightarrow> chat_turn list" where
  "build_turns cache userMessage =
     (let recentMessages = slice_last 10 cache in
      [\<lparr>t_role = System, t_content = JsString system_instruction\<rparr>]
      @ map (\<lambda>m. \<lparr>t_role = role m, t_content = content m\<rparr>) recentMessages
      @ [\<lparr>t_role = User, t_content = userMessage\<rparr>])"

text \<open>
  \<open>generateAIResponse\<close>: the \<open>try\<close> block and its \<open>catch\<close>. \<open>x || y\<close> is \<open>y\<close>
  when \<open>x\<close> is \<open>undefined\<close> or the empty string.
\<close>

definition generateAIResponse :: "platform \<Rightarrow> js_value \<Rightarrow> agent \<Rightarrow> string" where
  "generateAIResponse p userMessage a =
     (case AI_run p \<lparr>model = model_name, turns = build_turns (messages a) userMessage,
                     max_tokens = 512, temperature = 7 / 10\<rparr> of
        AiThrows e \<Rightarrow> ai_error_text
      | AiString s \<Rightarrow> s
      | AiObject field \<Rightarrow>
          (case field of
             None \<Rightarrow> no_response_text
           | Some s \<Rightarrow> if s = [] then no_response_text else s))"

definition json_response :: "nat \<Rightarrow> (string \<times> string) list \<Rightarrow> payload \<Rightarrow> response" where
  "json_response st hs b =
     \<lparr>status = st, headers = (''Content-Type'', ''application/json'') # hs, body = b\<rparr>"

text \<open>The \<open>catch\<close> of \<open>handleChat\<close>.\<close>

definition chat_failure :: "(string \<times> string) list \<Rightarrow> exn \<Rightarrow> response" where
  "chat_failure hs e =
     json_response 500 hs
       (ChatFailure (case e of JsError msg \<Rightarrow> msg | JsThrown \<Rightarrow> ''Unknown error''))"

definition handleChat :: "platform \<Rightarrow> request \<Rightarrow> (string \<times> string) list \<Rightarrow> agent \<Rightarrow> (exn + response) \<times> agent" where
  "handleChat p req hs a =
     (case json req of
        JsonThrows e \<Rightarrow> (Inr (chat_failure hs e), a)
      | JsonMessage msg \<Rightarrow>
          (let userMessage = \<lparr>role = User, content = msg, timestamp = now_user p\<rparr> in
           case saveMessage (insert_user_fault p) (bind_other p) userMessage a of
             (Inl e, a1) \<Rightarrow> (Inr (chat_failure hs e), a1)
           | (Inr u, a1) \<Rightarrow>
               (let aiResponse = generateAIResponse p msg a1;
                    assistantMessage = \<lparr>role = Assistant, content = JsString aiResponse,
                                         timestamp = now_assistant p\<rparr> in
                case saveMessage (insert_assistant_fault p) (bind_other p) assistantMessage a1 of
                  (Inl e, a2) \<Rightarrow> (Inr (chat_failure hs e), a2)
                | (Inr u', a2) \<Rightarrow>
                    (Inr (json_response 200 hs
                            (ChatSuccess userMessage assistantMessage (length (messages a2)))),
                     a2))))"

definition handleGetHistory :: "(string \<times> string) list \<Rightarrow> agent \<Rightarrow> (exn + response) \<times> agent" where
  "handleGetHistory hs a =
     (Inr (json_response 200 hs (HistorySuccess (messages a) (length (messages a)))), a)"

text \<open>\<open>handleClear\<close> has no \<open>try\<close>: the \<open>DELETE\<close> comes first, the array is reset after.\<close>

definition handleClear :: "platform \<Rightarrow> (string \<times> string) list \<Rightarrow> agent \<Rightarrow> (exn + response) \<times> agent" where
  "handleClear p hs a =
     (case sql_delete_all (delete_fault p) (db a) of
        Inl e \<Rightarrow> (Inl e, a)
      | Inr st \<Rightarrow>
          (Inr (json_response 200 hs ClearSuccess), a\<lparr>db := st, messages := []\<rparr>))"

definition fetch :: "platform \<Rightarrow> request \<Rightarrow> agent \<Rightarrow> (exn + response) \<times> agent" where
  "fetch p req a =
     (case initializeDatabase p a of
        (Inl e, a1) \<Rightarrow> (Inl e, a1)
      | (Inr u, a1) \<Rightarrow>
          if http_method req = ''OPTIONS''
          then (Inr \<lparr>status = 200, headers = corsHeaders, body = NoBody\<rparr>, a1)
          else if pathname req = ''/chat'' \<and> http_method req = ''POST''
          then handleChat p req corsHeaders a1
          else if pathname req = ''/history'' \<and> http_method req = ''GET''
          then handleGetHistory corsHeaders a1
          else if pathname req = ''/clear'' \<and> http_method req = ''POST''
          then handleClear p corsHeaders a1
          else (Inr \<lparr>status = 404, headers = corsHeaders, body = PlainText ''Not found''\<rparr>, a1))"

subsection \<open>Requests, platforms and runs used in the statements\<close>

definition chat_request :: "string \<Rightarrow> request" where
  "chat_request m = \<lparr>http_method = ''POST'', pathname = ''/chat'', json = JsonMessage (JsString m)\<rparr>"

text \<open>A \<open>GET\<close> or a bodiless \<open>POST\<close>: reading its JSON would throw, and no handler does.\<close>

definition history_request :: request where
  "history_request =
     \<lparr>http_method = ''GET'', pathname = ''/history'',
      json = JsonThrows (JsError ''Unexpected end of JSON input'')\<rparr>"

definition clear_request :: request where
  "clear_request =
     \<lparr>http_method = ''POST'', pathname = ''/clear'',
      json = JsonThrows (JsError ''Unexpected end of JSON input'')\<rparr>"

text \<open>The schema statement and the hydrating \<open>SELECT\<close> of a request both go through.\<close>

definition hydrates :: "platform \<Rightarrow> bool" where
  "hydrates p = (create_fault p = None \<and> select_fault p = None)"

text \<open>Neither they nor the two \<open>INSERT\<close>s of a send are made to throw.\<close>

definition stores :: "platform \<Rightarrow> bool" where
  "stores p = (hydrates p \<and> insert_user_fault p = None \<and> insert_assistant_fault p = None)"

text \<open>
  A platform without storage faults, with the given clock readings and model answer. Its
  storage returns rows of equal timestamp in insertion order and refuses to bind what is
  not a string.
\<close>

definition calm :: "int \<Rightarrow> int \<Rightarrow> ai_outcome \<Rightarrow> platform" where
  "calm t1 t2 out =
     \<lparr>create_fault = None, select_fault = None, insert_user_fault = None,
      insert_assistant_fault = None, delete_fault = None,
      tie_rank = (\<lambda>rw. 0), bind_other = (\<lambda>k. Inl (JsError ''unsupported binding'')),
      now_user = t1, now_assistant = t2, AI_run = (\<lambda>rq. out)\<rparr>"

text \<open>A newly constructed agent on a storage that has never been used.\<close>

definition fresh_agent :: agent where
  "fresh_agent = \<lparr>messages = [], db = \<lparr>created = False, rows = [], sequence = 0\<rparr>\<rparr>"

text \<open>The log as \<open>Message\<close>s, in insertion order, and its timestamps.\<close>

definition durable_log :: "agent \<Rightarrow> message list" where
  "durable_log a = map row_to_message (rows (db a))"




text \<open>The requests that \<open>fetch\<close> routes to \<open>handleChat\<close>.\<close>

definition is_send :: "request \<Rightarrow> bool" where
  "is_send req = (pathname req = ''/chat'' \<and> http_method req = ''POST'')"






text \<open>A model that answers with the contents of the turns it was sent after the first.\<close>

definition echo_turns :: "ai_request \<Rightarrow> ai_outcome" where
  "echo_turns rq =
     AiString (concat (map (\<lambda>t. (case t_content t of JsString s \<Rightarrow> s | _ \<Rightarrow> []) @ ''|'')
                           (tl (turns rq))))"

subsection \<open>Concrete inputs\<close>



definition echoing :: platform where
  "echoing = (calm 1 2 (AiString []))\<lparr>AI_run := echo_turns\<rparr>"

text \<open>The completion capability throws.\<close>

definition ai_down :: platform where
  "ai_down = calm 1 2 (AiThrows (JsError ''timeout''))"

text \<open>The storage refuses the \<open>DELETE\<close>.\<close>

definition delete_refused :: platform where
  "delete_refused =
     (calm 1 2 (AiString ''Hi''))\<lparr>delete_fault := Some (JsError ''storage unavailable'')\<rparr>"

text \<open>
  An agent constructed anew over a storage that already holds one message: what the
  platform hands to the first request after it has evicted the instance.
\<close>

definition reactivated_agent :: agent where
  "reactivated_agent =
     \<lparr>messages = [],
      db = \<lparr>created = True,
            rows = [\<lparr>r_id = 1, r_role = User, r_content = ''Hello'', r_timestamp = 1\<rparr>],
            sequence = 1\<rparr>\<rparr>"

definition preflight :: request where
  "preflight =
     \<lparr>http_method = ''OPTIONS'', pathname = ''/anything'',
      json = JsonThrows (JsError ''Unexpected end of JSON input'')\<rparr>"

text \<open>A \<open>POST /chat\<close> whose body is the JSON object without fields.\<close>

definition empty_object_chat :: request where
  "empty_object_chat = \<lparr>http_method = ''POST'', pathname = ''/chat'', json = JsonMessage JsUndefined\<rparr>"








section \<open>Properties\<close>

subsection \<open>Auxiliary facts\<close>

lemmas eval_defs =
  fetch_def calm_def chat_request_def fresh_agent_def initializeDatabase_def
  sql_create_table_def sql_select_all_def select_rows_def handleChat_def saveMessage_def
  sql_insert_def Let_def durable_log_def generateAIResponse_def build_turns_def
  slice_last_def json_response_def chat_failure_def row_to_message_def
  history_request_def handleGetHistory_def

lemma stores_calm: "stores (calm t1 t2 out)"
  by (simp add: stores_def hydrates_def calm_def)

lemma hydrates_calm: "hydrates (calm t1 t2 out)"
  by (simp add: hydrates_def calm_def)



lemma length_select_rows: "length (select_rows rank rs) = length rs"
  by (simp add: select_rows_def)






text \<open>Hydration replaces the array by the rows as \<open>ORDER BY\<close> returns them.\<close>

lemma hydrate:
  assumes "hydrates p"
  shows "initializeDatabase p a =
    (Inr (), \<lparr>messages = map row_to_message (select_rows (tie_rank p) (rows (db a))),
              db = (db a)\<lparr>created := True\<rparr>\<rparr>)"
  using assms
  by (simp add: hydrates_def initializeDatabase_def sql_create_table_def sql_select_all_def)


lemma save_ok:
  assumes "created (db a)"
  shows "saveMessage None bind \<lparr>role = r, content = JsString c, timestamp = t\<rparr> a =
    (Inr (), \<lparr>messages = messages a @ [\<lparr>role = r, content = JsString c, timestamp = t\<rparr>],
              db = \<lparr>created = True,
                    rows = rows (db a) @ [\<lparr>r_id = Suc (sequence (db a)), r_role = r,
                                          r_content = c, r_timestamp = t\<rparr>],
                    sequence = Suc (sequence (db a))\<rparr>\<rparr>)"
  using assms by (simp add: saveMessage_def sql_insert_def Let_def)


text \<open>A send of a string whose two inserts go through, on an existing table.\<close>

lemma chat_ok:
  assumes "insert_user_fault p = None" and "insert_assistant_fault p = None"
    and "created (db a)"
  shows "handleChat p (chat_request m) hs a =
    (let u = \<lparr>role = User, content = JsString m, timestamp = now_user p\<rparr>;
         a1 = \<lparr>messages = messages a @ [u],
               db = \<lparr>created = True,
                     rows = rows (db a) @ [\<lparr>r_id = Suc (sequence (db a)), r_role = User,
                                           r_content = m, r_timestamp = now_user p\<rparr>],
                     sequence = Suc (sequence (db a))\<rparr>\<rparr>;
         reply = generateAIResponse p (JsString m) a1;
         v = \<lparr>role = Assistant, content = JsString reply, timestamp = now_assistant p\<rparr>
     in (Inr (json_response 200 hs (ChatSuccess u v (length (messages a) + 2))),
         \<lparr>messages = messages a @ [u, v],
          db = \<lparr>created = True,
                rows = rows (db a) @
                  [\<lparr>r_id = Suc (sequence (db a)), r_role = User,
                    r_content = m, r_timestamp = now_user p\<rparr>,
                   \<lparr>r_id = Suc (Suc (sequence (db a))), r_role = Assistant,
                    r_content = reply, r_timestamp = now_assistant p\<rparr>],
                sequence = Suc (Suc (sequence (db a)))\<rparr>\<rparr>))"
  using assms
  by (simp add: handleChat_def chat_request_def save_ok Let_def)

text \<open>A \<open>POST /chat\<close> reaches the handler with the hydrated array.\<close>

lemma fetch_send:
  assumes "hydrates p" and "is_send req"
  shows "fetch p req a =
    handleChat p req corsHeaders
      \<lparr>messages = map row_to_message (select_rows (tie_rank p) (rows (db a))),
       db = (db a)\<lparr>created := True\<rparr>\<rparr>"
  using assms by (simp add: fetch_def hydrate is_send_def)

lemma is_send_chat_request: "is_send (chat_request m)"
  by (simp add: is_send_def chat_request_def)





lemma fetch_history:
  assumes "hydrates p"
  shows "fetch p history_request a =
    (Inr (json_response 200 corsHeaders
            (HistorySuccess (map row_to_message (select_rows (tie_rank p) (rows (db a))))
               (length (rows (db a))))),
     \<lparr>messages = map row_to_message (select_rows (tie_rank p) (rows (db a))),
      db = (db a)\<lparr>created := True\<rparr>\<rparr>)"
proof -
  have "length (select_rows (tie_rank p) (rows (db a))) = length (rows (db a))"
    by (simp add: select_rows_def)
  with assms show ?thesis
    by (simp add: fetch_def hydrate history_request_def handleGetHistory_def)
qed

subsection \<open>History after a sequence of sends\<close>




subsection \<open>The array and the log\<close>











subsection \<open>The turns sent to the model\<close>

text \<open>
  What \<open>generateAIResponse\<close> builds from an array that already ends with the new user
  message: the window is the nine messages before it and the message itself, and the
  utterance follows once more.
\<close>

lemma build_turns_after_save:
  "build_turns (cache @ [\<lparr>role = User, content = um, timestamp = t\<rparr>]) um =
     [\<lparr>t_role = System, t_content = JsString system_instruction\<rparr>] @
     map (\<lambda>m. \<lparr>t_role = role m, t_content = content m\<rparr>) (slice_last 9 cache) @
     [\<lparr>t_role = User, t_content = um\<rparr>, \<lparr>t_role = User, t_content = um\<rparr>]"
  by (simp add: build_turns_def slice_last_def Let_def)

text \<open>
  C3. The claim is that the model receives the system instruction, then the last ten
  messages of the array as it was before the new utterance was appended, then the new
  utterance. \<open>handleChat\<close> saves the user message before it calls \<open>generateAIResponse\<close>,
  which slices the array it finds and appends the utterance again. On an agent without
  history the send of \<open>Hello\<close> hands the model the utterance twice: a model that echoes
  the turns after the system instruction answers \<open>Hello|Hello|\<close>, where the turns of the
  claim would give \<open>Hello|\<close>.
\<close>

theorem chat_context_repeats_user_message:
  "fetch echoing (chat_request ''Hello'') fresh_agent =
     (Inr (json_response 200 corsHeaders
        (ChatSuccess \<lparr>role = User, content = JsString ''Hello'', timestamp = 1\<rparr>
           \<lparr>role = Assistant, content = JsString ''Hello|Hello|'', timestamp = 2\<rparr> 2)),
      \<lparr>messages = [\<lparr>role = User, content = JsString ''Hello'', timestamp = 1\<rparr>,
                   \<lparr>role = Assistant, content = JsString ''Hello|Hello|'', timestamp = 2\<rparr>],
       db = \<lparr>created = True,
             rows = [\<lparr>r_id = 1, r_role = User, r_content = ''Hello'', r_timestamp = 1\<rparr>,
                     \<lparr>r_id = 2, r_role = Assistant, r_content = ''Hello|Hello|'',
                       r_timestamp = 2\<rparr>],
             sequence = 2\<rparr>\<rparr>) \<and>
   echo_turns \<lparr>model = model_name,
               turns = [\<lparr>t_role = System, t_content = JsString system_instruction\<rparr>,
                        \<lparr>t_role = User, t_content = JsString ''Hello''\<rparr>],
               max_tokens = 512, temperature = 7 / 10\<rparr> = AiString ''Hello|''"
  by (simp add: eval_defs echoing_def echo_turns_def)

subsection \<open>A model that throws\<close>

text \<open>
  C4, as stated: when the completion capability throws, the assistant message is
  \<open>I apologize, but I couldn't generate a response.\<close> It does not hold: that string
  answers an object without a usable \<open>response\<close> field; the \<open>catch\<close> returns another one.
\<close>

theorem ai_failure_text_counterexample:
  "fst (fetch ai_down (chat_request ''Hello'') fresh_agent) =
     Inr (json_response 200 corsHeaders
        (ChatSuccess \<lparr>role = User, content = JsString ''Hello'', timestamp = 1\<rparr>
           \<lparr>role = Assistant, content = JsString ai_error_text, timestamp = 2\<rparr> 2)) \<and>
   ai_error_text \<noteq> no_response_text"
  by (simp add: eval_defs ai_down_def) (simp add: ai_error_text_def no_response_text_def)

text \<open>
  C4, amended. For every send with a well-formed body whose storage statements go
  through: if the completion capability throws, the response is the success envelope of
  status 200 with an assistant message whose content is
  \<open>I'm having trouble connecting to the AI service. Please try again.\<close>, and that
  message follows the user message at the end of both the array and the log.
\<close>

theorem ai_failure_reply:
  assumes "stores p" and "\<forall>rq. \<exists>e. AI_run p rq = AiThrows e"
  shows "\<exists>a'. fetch p (chat_request m) a =
           (Inr (json_response 200 corsHeaders
              (ChatSuccess \<lparr>role = User, content = JsString m, timestamp = now_user p\<rparr>
                 \<lparr>role = Assistant, content = JsString ai_error_text, timestamp = now_assistant p\<rparr>
                 (length (durable_log a) + 2))), a') \<and>
         messages a' = map row_to_message (select_rows (tie_rank p) (rows (db a))) @
            [\<lparr>role = User, content = JsString m, timestamp = now_user p\<rparr>,
             \<lparr>role = Assistant, content = JsString ai_error_text, timestamp = now_assistant p\<rparr>] \<and>
         durable_log a' = durable_log a @
            [\<lparr>role = User, content = JsString m, timestamp = now_user p\<rparr>,
             \<lparr>role = Assistant, content = JsString ai_error_text, timestamp = now_assistant p\<rparr>]"
proof -
  from assms(1) have h: "hydrates p" and iu: "insert_user_fault p = None"
    and ia: "insert_assistant_fault p = None"
    by (simp_all add: stores_def)
  let ?a0 = "\<lparr>messages = map row_to_message (select_rows (tie_rank p) (rows (db a))),
              db = (db a)\<lparr>created := True\<rparr>\<rparr>"
  have cr: "created (db ?a0)" by simp
  have g: "generateAIResponse p um b = ai_error_text" for um b
  proof -
    from assms(2) obtain e where
      "AI_run p \<lparr>model = model_name, turns = build_turns (messages b) um,
                 max_tokens = 512, temperature = 7 / 10\<rparr> = AiThrows e"
      by blast
    then show ?thesis by (simp add: generateAIResponse_def)
  qed
  show ?thesis
    unfolding fetch_send [OF h is_send_chat_request] chat_ok [OF iu ia cr]
    by (simp add: Let_def g durable_log_def row_to_message_def length_select_rows)
qed

theorem ai_failure_reply_witness:
  "stores ai_down \<and> (\<forall>rq. \<exists>e. AI_run ai_down rq = AiThrows e) \<and>
   fst (fetch ai_down (chat_request ''Hello'') fresh_agent) =
     Inr (json_response 200 corsHeaders
        (ChatSuccess \<lparr>role = User, content = JsString ''Hello'', timestamp = 1\<rparr>
           \<lparr>role = Assistant, content = JsString ai_error_text, timestamp = 2\<rparr> 2))"
proof -
  have h1: "stores ai_down" by (simp add: ai_down_def stores_calm)
  have h3: "\<forall>rq. \<exists>e. AI_run ai_down rq = AiThrows e" by (simp add: ai_down_def calm_def)
  from ai_failure_reply [OF h1 h3, of "''Hello''" fresh_agent]
  have "fst (fetch ai_down (chat_request ''Hello'') fresh_agent) =
     Inr (json_response 200 corsHeaders
        (ChatSuccess \<lparr>role = User, content = JsString ''Hello'', timestamp = 1\<rparr>
           \<lparr>role = Assistant, content = JsString ai_error_text, timestamp = 2\<rparr> 2))"
    by (auto simp: ai_down_def calm_def durable_log_def fresh_agent_def numeral_2_eq_2)
  with h1 h3 show ?thesis by blast
qed

subsection \<open>A chat request without a message\<close>

text \<open>
  C5. For every \<open>POST /chat\<close> whose body lacks a \<open>message\<close> field, malformed or
  missing JSON included, the response is the JSON envelope with \<open>success: false\<close> and an
  error message, on status 500.

  A body that cannot be read throws inside the \<open>try\<close>. A body that parses but has no
  \<open>message\<close> makes the content of the user message \<open>undefined\<close>, and the \<open>INSERT\<close>
  throws, on the \<open>NOT NULL\<close> column if on nothing else; the \<open>catch\<close> answers both.
  The handler does so in every agent and on every platform; through \<open>fetch\<close> the request
  reaches it when hydration goes through.
\<close>

theorem chat_without_message:
  assumes "json req = JsonThrows e \<or> json req = JsonMessage JsUndefined"
  shows "(\<exists>msg a'. handleChat p req hs a =
            (Inr (json_response 500 hs (ChatFailure msg)), a')) \<and>
         (hydrates p \<and> http_method req = ''POST'' \<and> pathname req = ''/chat'' \<longrightarrow>
            (\<exists>msg a'. fetch p req a =
                (Inr (json_response 500 corsHeaders (ChatFailure msg)), a')))"
proof -
  have hc: "\<exists>msg a'. handleChat p req hs a = (Inr (json_response 500 hs (ChatFailure msg)), a')"
    for hs a
    using assms
    by (auto simp: handleChat_def chat_failure_def saveMessage_def sql_insert_def Let_def
        not_null_violation_def no_such_table_def split: option.splits)
  show ?thesis
  proof (intro conjI impI)
    show "\<exists>msg a'. handleChat p req hs a = (Inr (json_response 500 hs (ChatFailure msg)), a')"
      by (rule hc)
  next
    assume "hydrates p \<and> http_method req = ''POST'' \<and> pathname req = ''/chat''"
    then show "\<exists>msg a'. fetch p req a =
                (Inr (json_response 500 corsHeaders (ChatFailure msg)), a')"
      using hc by (simp add: fetch_def hydrate)
  qed
qed

theorem chat_without_message_witness:
  "(json empty_object_chat = JsonThrows JsThrown \<or> json empty_object_chat = JsonMessage JsUndefined) \<and>
   hydrates (calm 1 2 (AiString ''Hi'')) \<and>
   http_method empty_object_chat = ''POST'' \<and> pathname empty_object_chat = ''/chat'' \<and>
   status (projr (fst (fetch (calm 1 2 (AiString ''Hi'')) empty_object_chat fresh_agent))) = 500 \<and>
   fst (fetch (calm 1 2 (AiString ''Hi'')) empty_object_chat fresh_agent) =
     Inr (chat_failure corsHeaders not_null_violation)"
proof -
  have h1: "json empty_object_chat = JsonThrows JsThrown \<or>
            json empty_object_chat = JsonMessage JsUndefined"
    by (simp add: empty_object_chat_def)
  have h2: "hydrates (calm 1 2 (AiString ''Hi'')) \<and>
            http_method empty_object_chat = ''POST'' \<and> pathname empty_object_chat = ''/chat''"
    by (simp add: hydrates_calm empty_object_chat_def)
  from chat_without_message [OF h1, of "calm 1 2 (AiString ''Hi'')" corsHeaders fresh_agent] h2
  obtain msg a' where "fetch (calm 1 2 (AiString ''Hi'')) empty_object_chat fresh_agent =
      (Inr (json_response 500 corsHeaders (ChatFailure msg)), a')"
    by blast
  then have st: "status (projr (fst (fetch (calm 1 2 (AiString ''Hi'')) empty_object_chat
      fresh_agent))) = 500"
    by (simp add: json_response_def)
  have "fst (fetch (calm 1 2 (AiString ''Hi'')) empty_object_chat fresh_agent) =
     Inr (chat_failure corsHeaders not_null_violation)"
    by (simp add: eval_defs empty_object_chat_def)
  with h1 h2 st show ?thesis by blast
qed

subsection \<open>Clear, then history\<close>

text \<open>
  C6. Whatever the log held, a clear (\<open>POST /clear\<close>) followed at once by a history
  (\<open>GET /history\<close>) gives a history response with no messages and count 0, and the
  clear itself answers with the bare acknowledgment \<open>{success: true}\<close>. Both requests
  complete: their storage statements go through.
\<close>

theorem clear_then_history:
  assumes "hydrates p1" and "delete_fault p1 = None" and "hydrates p2"
  shows "\<exists>a1 a2.
           fetch p1 clear_request a = (Inr (json_response 200 corsHeaders ClearSuccess), a1) \<and>
           fetch p2 history_request a1 =
             (Inr (json_response 200 corsHeaders (HistorySuccess [] 0)), a2)"
proof -
  let ?a1 = "\<lparr>messages = [], db = \<lparr>created = True, rows = [], sequence = sequence (db a)\<rparr>\<rparr>"
  have c: "fetch p1 clear_request a = (Inr (json_response 200 corsHeaders ClearSuccess), ?a1)"
    using assms(1,2)
    by (simp add: fetch_def hydrate clear_request_def handleClear_def sql_delete_all_def)
  from fetch_history [OF assms(3), of ?a1]
  have "fetch p2 history_request ?a1 =
          (Inr (json_response 200 corsHeaders (HistorySuccess [] 0)),
           \<lparr>messages = [], db = (db ?a1)\<lparr>created := True\<rparr>\<rparr>)"
    by (simp add: select_rows_def)
  with c show ?thesis by blast
qed

theorem clear_then_history_witness:
  "hydrates (calm 1 2 (AiString ''Hi'')) \<and> delete_fault (calm 1 2 (AiString ''Hi'')) = None \<and>
   rows (db reactivated_agent) \<noteq> [] \<and>
   fst (fetch (calm 1 2 (AiString ''Hi'')) clear_request reactivated_agent) =
     Inr (json_response 200 corsHeaders ClearSuccess) \<and>
   fst (fetch (calm 1 2 (AiString ''Hi'')) history_request
          (snd (fetch (calm 1 2 (AiString ''Hi'')) clear_request reactivated_agent))) =
     Inr (json_response 200 corsHeaders (HistorySuccess [] 0))"
proof -
  have h1: "hydrates (calm 1 2 (AiString ''Hi''))" by (rule hydrates_calm)
  have h2: "delete_fault (calm 1 2 (AiString ''Hi'')) = None" by (simp add: calm_def)
  have h3: "rows (db reactivated_agent) \<noteq> []" by (simp add: reactivated_agent_def)
  from clear_then_history [OF h1 h2 h1, of reactivated_agent] h1 h2 h3
  show ?thesis by auto
qed

subsection \<open>Normalising the answer of the model\<close>

text \<open>
  C7, as stated: a bare string is the answer; an object has its \<open>response\<close> field
  extracted and returned; the fixed text is returned only when there is neither. It does
  not hold for an object whose \<open>response\<close> is the empty string: the field is present, and
  \<open>||\<close> replaces it by the fixed text.
\<close>

theorem empty_response_field_counterexample:
  "generateAIResponse (calm 1 2 (AiObject (Some []))) (JsString ''Hello'') fresh_agent \<noteq> []"
  by (simp add: generateAIResponse_def calm_def no_response_text_def)

text \<open>
  C7, amended. For every value the completion capability returns: a bare string is
  returned unchanged; an object has its \<open>response\<close> field returned when the field is a
  non-empty string; an object whose \<open>response\<close> field is absent or empty gives
  \<open>I apologize, but I couldn't generate a response.\<close>
\<close>

theorem response_normalized:
  fixes p um a
  defines "out \<equiv> AI_run p \<lparr>model = model_name, turns = build_turns (messages a) um,
                             max_tokens = 512, temperature = 7 / 10\<rparr>"
  shows "(out = AiString s \<longrightarrow> generateAIResponse p um a = s) \<and>
         (out = AiObject (Some s) \<and> s \<noteq> [] \<longrightarrow> generateAIResponse p um a = s) \<and>
         (out = AiObject None \<or> out = AiObject (Some []) \<longrightarrow>
             generateAIResponse p um a = no_response_text)"
  by (auto simp: generateAIResponse_def out_def)

theorem response_normalized_witness:
  "generateAIResponse (calm 1 2 (AiString [])) (JsString ''Hello'') fresh_agent = [] \<and>
   generateAIResponse (calm 1 2 (AiObject (Some ''Hi''))) (JsString ''Hello'') fresh_agent = ''Hi'' \<and>
   generateAIResponse (calm 1 2 (AiObject None)) (JsString ''Hello'') fresh_agent = no_response_text"
proof -
  have o: "AI_run (calm 1 2 out) rq = out" for out rq by (simp add: calm_def)
  have n: "''Hi'' \<noteq> []" by simp
  from response_normalized [of "calm 1 2 (AiString [])" fresh_agent "JsString ''Hello''" "[]"] o
  have c1: "generateAIResponse (calm 1 2 (AiString [])) (JsString ''Hello'') fresh_agent = []"
    by blast
  from response_normalized [of "calm 1 2 (AiObject (Some ''Hi''))" fresh_agent "JsString ''Hello''"
      "''Hi''"] o n
  have c2: "generateAIResponse (calm 1 2 (AiObject (Some ''Hi''))) (JsString ''Hello'') fresh_agent
      = ''Hi''"
    by blast
  from response_normalized [of "calm 1 2 (AiObject None)" fresh_agent "JsString ''Hello''"] o
  have c3: "generateAIResponse (calm 1 2 (AiObject None)) (JsString ''Hello'') fresh_agent
      = no_response_text"
    by blast
  from c1 c2 c3 show ?thesis by blast
qed

subsection \<open>Preflight\<close>

text \<open>
  C8, as stated: an \<open>OPTIONS\<close> request changes neither the array nor the log. It does
  not hold for the array: \<open>fetch\<close> hydrates before it looks at the method, so the first
  request to a newly activated agent, preflight or not, fills the empty array from the log.
\<close>

theorem preflight_hydrates_counterexample:
  "messages (snd (fetch (calm 1 2 (AiString ''Hi'')) preflight reactivated_agent)) =
     [\<lparr>role = User, content = JsString ''Hello'', timestamp = 1\<rparr>] \<and>
   messages reactivated_agent = [] \<and>
   messages (snd (fetch (calm 1 2 (AiString ''Hi'')) preflight reactivated_agent)) \<noteq>
     messages reactivated_agent"
  by (simp add: eval_defs preflight_def reactivated_agent_def row_to_message_def)

text \<open>
  C8, amended. For every \<open>OPTIONS\<close> request, whatever its path, whose schema statement
  and hydrating \<open>SELECT\<close> go through, the response is an empty-bodied 200 with the
  headers allow-origin \<open>*\<close>, allow-methods \<open>GET, POST, OPTIONS\<close> and allow-headers
  \<open>Content-Type\<close>; the rows of the log and its id counter are unchanged (the table is
  created if it was absent), and the array is replaced by the log read in timestamp order.
\<close>

theorem preflight_response:
  assumes "http_method req = ''OPTIONS''" and "hydrates p"
  shows "fetch p req a =
     (Inr \<lparr>status = 200,
           headers = [(''Access-Control-Allow-Origin'', ''*''),
                      (''Access-Control-Allow-Methods'', ''GET, POST, OPTIONS''),
                      (''Access-Control-Allow-Headers'', ''Content-Type'')],
           body = NoBody\<rparr>,
      \<lparr>messages = map row_to_message (select_rows (tie_rank p) (rows (db a))),
       db = \<lparr>created = True, rows = rows (db a), sequence = sequence (db a)\<rparr>\<rparr>)"
  using assms by (simp add: fetch_def hydrate corsHeaders_def)

theorem preflight_response_witness:
  "http_method preflight = ''OPTIONS'' \<and> hydrates (calm 1 2 (AiString ''Hi'')) \<and>
   fetch (calm 1 2 (AiString ''Hi'')) preflight reactivated_agent =
     (Inr \<lparr>status = 200, headers = corsHeaders, body = NoBody\<rparr>,
      \<lparr>messages = [\<lparr>role = User, content = JsString ''Hello'', timestamp = 1\<rparr>],
       db = db reactivated_agent\<rparr>)"
proof -
  have h1: "http_method preflight = ''OPTIONS''" by (simp add: preflight_def)
  have h2: "hydrates (calm 1 2 (AiString ''Hi''))" by (rule hydrates_calm)
  from preflight_response [OF h1 h2, of reactivated_agent] h1 h2
  show ?thesis
    by (simp add: reactivated_agent_def row_to_message_def corsHeaders_def select_rows_def
        calm_def)
qed

subsection \<open>An empty response field\<close>

text \<open>
  C9. When the completion capability returns an object whose \<open>response\<close> field is
  present but is the empty string, or is otherwise falsy (of the values the field can
  take here, \<open>undefined\<close>), the result is
  \<open>I apologize, but I couldn't generate a response.\<close> and not the empty string.
\<close>

theorem falsy_response_field:
  assumes "AI_run p \<lparr>model = model_name, turns = build_turns (messages a) um,
                     max_tokens = 512, temperature = 7 / 10\<rparr> = AiObject field"
    and "field = Some [] \<or> field = None"
  shows "generateAIResponse p um a = no_response_text \<and> generateAIResponse p um a \<noteq> []"
  using assms by (auto simp: generateAIResponse_def no_response_text_def)

theorem falsy_response_field_witness:
  "AI_run (calm 1 2 (AiObject (Some [])))
     \<lparr>model = model_name, turns = build_turns (messages fresh_agent) (JsString ''Hello''),
      max_tokens = 512, temperature = 7 / 10\<rparr> = AiObject (Some []) \<and>
   generateAIResponse (calm 1 2 (AiObject (Some []))) (JsString ''Hello'') fresh_agent =
     no_response_text"
proof -
  have h1: "AI_run (calm 1 2 (AiObject (Some [])))
     \<lparr>model = model_name, turns = build_turns (messages fresh_agent) (JsString ''Hello''),
      max_tokens = 512, temperature = 7 / 10\<rparr> = AiObject (Some [])"
    by (simp add: calm_def)
  have h2: "Some [] = Some ([] :: string) \<or> Some ([] :: string) = None" by simp
  from falsy_response_field [OF h1 h2] h1 show ?thesis by blast
qed

subsection \<open>A clear whose delete fails\<close>

text \<open>
  C10. In clear (\<open>POST /clear\<close>) the \<open>DELETE\<close> runs before the array is reset. When it
  throws, \<open>handleClear\<close> leaves the agent as it found it and rejects with the error;
  nothing catches it, so \<open>fetch\<close> rejects with it too and no success response is
  returned. The array \<open>fetch\<close> leaves behind is the hydrated one, and the rows of the
  log are those it started with.
\<close>

theorem clear_delete_fault:
  assumes "delete_fault p = Some e"
  shows "handleClear p hs a = (Inl e, a) \<and>
         (hydrates p \<longrightarrow>
            fetch p clear_request a =
              (Inl e, \<lparr>messages = map row_to_message (select_rows (tie_rank p) (rows (db a))),
                       db = (db a)\<lparr>created := True\<rparr>\<rparr>))"
  using assms
  by (simp add: handleClear_def sql_delete_all_def fetch_def hydrate clear_request_def)

theorem clear_delete_fault_witness:
  "delete_fault delete_refused = Some (JsError ''storage unavailable'') \<and>
   hydrates delete_refused \<and>
   handleClear delete_refused corsHeaders
     \<lparr>messages = [\<lparr>role = User, content = JsString ''Hello'', timestamp = 1\<rparr>],
      db = db reactivated_agent\<rparr> =
     (Inl (JsError ''storage unavailable''),
      \<lparr>messages = [\<lparr>role = User, content = JsString ''Hello'', timestamp = 1\<rparr>],
       db = db reactivated_agent\<rparr>) \<and>
   fetch delete_refused clear_request reactivated_agent =
     (Inl (JsError ''storage unavailable''),
      \<lparr>messages = [\<lparr>role = User, content = JsString ''Hello'', timestamp = 1\<rparr>],
       db = db reactivated_agent\<rparr>)"
proof -
  have h1: "delete_fault delete_refused = Some (JsError ''storage unavailable'')"
    by (simp add: delete_refused_def calm_def)
  have h2: "hydrates delete_refused"
    by (simp add: delete_refused_def calm_def hydrates_def)
  from clear_delete_fault [OF h1, of corsHeaders
      "\<lparr>messages = [\<lparr>role = User, content = JsString ''Hello'', timestamp = 1\<rparr>],
        db = db reactivated_agent\<rparr>"]
  have c1: "handleClear delete_refused corsHeaders
     \<lparr>messages = [\<lparr>role = User, content = JsString ''Hello'', timestamp = 1\<rparr>],
      db = db reactivated_agent\<rparr> =
     (Inl (JsError ''storage unavailable''),
      \<lparr>messages = [\<lparr>role = User, content = JsString ''Hello'', timestamp = 1\<rparr>],
       db = db reactivated_agent\<rparr>)"
    by blast
  from clear_delete_fault [OF h1, of corsHeaders reactivated_agent] h2
  have c2: "fetch delete_refused clear_request reactivated_agent =
     (Inl (JsError ''storage unavailable''),
      \<lparr>messages = [\<lparr>role = User, content = JsString ''Hello'', timestamp = 1\<rparr>],
       db = db reactivated_agent\<rparr>)"
    by (simp add: reactivated_agent_def row_to_message_def select_rows_def
        delete_refused_def calm_def)
  from h1 h2 c1 c2 show ?thesis by blast
qed

end
